theory Spec2Isabelle
  imports
    Complex_Main
    "HOL-Library.Multiset"
    "HOL-Library.Char_ord"
    "HOL-Library.List_Lexorder"
begin

section \<open>Numbers as numpy holds them\<close>

text \<open>
  The transition engine of \<^verbatim>\<open>ceam/state_machine.py\<close> computes with numpy arrays of
  floats. Rounding is not modelled: a finite value is a real number. What is modelled is
  the part of IEEE arithmetic that changes control flow: numpy divides by zero without
  raising (the quotient is an infinity or NaN), NaN is absorbing for addition, and every
  comparison with NaN is false. Signed zeros are not modelled.
\<close>

datatype npfloat = Fin real | PInf | NInf | NaN

fun fadd :: "npfloat \<Rightarrow> npfloat \<Rightarrow> npfloat" where
  "fadd (Fin a) (Fin b) = Fin (a + b)"
| "fadd NaN _ = NaN"
| "fadd _ NaN = NaN"
| "fadd PInf NInf = NaN"
| "fadd NInf PInf = NaN"
| "fadd PInf _ = PInf"
| "fadd _ PInf = PInf"
| "fadd NInf _ = NInf"
| "fadd _ NInf = NInf"

fun fneg :: "npfloat \<Rightarrow> npfloat" where
  "fneg (Fin a) = Fin (- a)"
| "fneg PInf = NInf"
| "fneg NInf = PInf"
| "fneg NaN = NaN"

definition fsub :: "npfloat \<Rightarrow> npfloat \<Rightarrow> npfloat" where
  "fsub a b = fadd a (fneg b)"

fun fdiv :: "npfloat \<Rightarrow> npfloat \<Rightarrow> npfloat" where
  "fdiv (Fin a) (Fin b) =
     (if b = 0 then (if a = 0 then NaN else if 0 < a then PInf else NInf)
      else Fin (a / b))"
| "fdiv NaN _ = NaN"
| "fdiv _ NaN = NaN"
| "fdiv (Fin a) PInf = Fin 0"
| "fdiv (Fin a) NInf = Fin 0"
| "fdiv PInf (Fin b) = (if 0 \<le> b then PInf else NInf)"
| "fdiv NInf (Fin b) = (if 0 \<le> b then NInf else PInf)"
| "fdiv PInf _ = NaN"
| "fdiv NInf _ = NaN"

text \<open>\<open>fge a b\<close> is numpy's \<^verbatim>\<open>a >= b\<close>, \<open>fgt a b\<close> is \<^verbatim>\<open>a > b\<close>.\<close>

fun fge :: "npfloat \<Rightarrow> npfloat \<Rightarrow> bool" where
  "fge (Fin a) (Fin b) = (b \<le> a)"
| "fge NaN _ = False"
| "fge _ NaN = False"
| "fge PInf _ = True"
| "fge _ NInf = True"
| "fge (Fin a) PInf = False"
| "fge NInf _ = False"

fun fgt :: "npfloat \<Rightarrow> npfloat \<Rightarrow> bool" where
  "fgt (Fin a) (Fin b) = (b < a)"
| "fgt NaN _ = False"
| "fgt _ NaN = False"
| "fgt PInf PInf = False"
| "fgt PInf _ = True"
| "fgt NInf _ = False"
| "fgt (Fin a) NInf = True"
| "fgt (Fin a) PInf = False"

text \<open>\<^verbatim>\<open>np.sum\<close> and \<^verbatim>\<open>cumsum\<close> along one agent's column of a matrix.\<close>

definition np_sum :: "npfloat list \<Rightarrow> npfloat" where
  "np_sum xs = foldl fadd (Fin 0) xs"

fun cumsum_from :: "npfloat \<Rightarrow> npfloat list \<Rightarrow> npfloat list" where
  "cumsum_from acc [] = []"
| "cumsum_from acc (x # xs) = fadd acc x # cumsum_from (fadd acc x) xs"

definition np_cumsum :: "npfloat list \<Rightarrow> npfloat list" where
  "np_cumsum xs = cumsum_from (Fin 0) xs"

text \<open>
  A two-dimensional array is a list of rows, one row per outcome, one entry per agent,
  as numpy lays out \<^verbatim>\<open>probabilities\<close>. Operations with \<^verbatim>\<open>axis=0\<close> act on each
  agent's column.
\<close>

definition column :: "npfloat list list \<Rightarrow> nat \<Rightarrow> npfloat list" where
  "column m j = map (\<lambda>r. r ! j) m"

section \<open>Data frames\<close>

text \<open>
  A pandas DataFrame of agents: the column labels, and the rows in order. A row is the
  agent's index label (the agent's identity) and its cells by column; a missing cell is
  \<open>None\<close>.
\<close>

datatype cell = Str string | Num real

type_synonym row = "nat \<times> (string \<rightharpoonup> cell)"

record frame =
  columns :: "string list"
  rows :: "row list"

datatype error =
    ValueError_unpack
  | ValueError_total_probability
  | ValueError_concat
  | KeyError string
  | IndexError

text \<open>\<^verbatim>\<open>len(agents)\<close>.\<close>

definition len :: "frame \<Rightarrow> nat" where
  "len agents = length (rows agents)"

text \<open>The index labels of a frame, in row order.\<close>

definition index :: "frame \<Rightarrow> nat list" where
  "index agents = map fst (rows agents)"

text \<open>
  \<^verbatim>\<open>agents[col] = v\<close>: every row gets the value; the column is appended to the labels
  when it is new.
\<close>

definition set_column :: "frame \<Rightarrow> string \<Rightarrow> cell \<Rightarrow> frame" where
  "set_column agents col v =
     \<lparr>columns = (if col \<in> set (columns agents) then columns agents else columns agents @ [col]),
      rows = map (\<lambda>(i, c). (i, c(col \<mapsto> v))) (rows agents)\<rparr>"

text \<open>
  \<^verbatim>\<open>agents[agents[col] == v]\<close>: reading a column that is not there raises KeyError;
  otherwise the rows whose cell equals the value are kept, in order.
\<close>

definition select_eq :: "frame \<Rightarrow> string \<Rightarrow> cell \<Rightarrow> error + frame" where
  "select_eq agents col v =
     (if col \<in> set (columns agents)
      then Inr (agents\<lparr>rows := filter (\<lambda>r. snd r col = Some v) (rows agents)\<rparr>)
      else Inl (KeyError col))"

text \<open>Column labels of a concatenation: the union, in order of first appearance.\<close>

definition union_columns :: "string list list \<Rightarrow> string list" where
  "union_columns css = foldl (\<lambda>acc c. if c \<in> set acc then acc else acc @ [c]) [] (concat css)"

text \<open>\<^verbatim>\<open>pd.concat(frames)\<close>: an empty list of frames raises ValueError.\<close>

definition pd_concat :: "frame list \<Rightarrow> error + frame" where
  "pd_concat fs =
     (if fs = [] then Inl ValueError_concat
      else Inr \<lparr>columns = union_columns (map columns fs), rows = concat (map rows fs)\<rparr>)"

text \<open>
  \<^verbatim>\<open>agents.groupby(keys)\<close>, iterated: one pair per distinct key, keys ascending, each
  sub-frame holding the rows with that key in their original order.
\<close>

definition groupby :: "frame \<Rightarrow> nat list \<Rightarrow> (nat \<times> frame) list" where
  "groupby agents keys =
     map (\<lambda>k. (k, agents\<lparr>rows := map fst (filter (\<lambda>z. snd z = k) (zip (rows agents) keys))\<rparr>))
       (sort (remdups keys))"

section \<open>State, Transition, TransitionSet, Machine\<close>

text \<open>
  A Transition's \<^verbatim>\<open>output\<close> is another State object, and State objects refer to one
  another in cycles (A to B, B to A), so an output is held by reference: the identity of
  the object, which is what Python compares when the object is a dict key, and its
  \<^verbatim>\<open>state_id\<close>, the only field \<^verbatim>\<open>transition_effect\<close> and \<^verbatim>\<open>__str__\<close> read.
\<close>

record state_ref =
  obj :: nat
  ref_state_id :: string

text \<open>
  \<^verbatim>\<open>probability(agents)\<close> returns one value per agent: it is given by its value at each
  row position. The default of \<^verbatim>\<open>Transition.__init__\<close> is
  \<^verbatim>\<open>np.full(len(agents), 1, dtype=float)\<close>.
\<close>

record Transition =
  output_state :: state_ref
  probability :: "frame \<Rightarrow> nat \<Rightarrow> npfloat"

definition default_probability_func :: "frame \<Rightarrow> nat \<Rightarrow> npfloat" where
  "default_probability_func agents j = Fin 1"

definition Transition_init :: "state_ref \<Rightarrow> Transition" where
  "Transition_init out = \<lparr>output_state = out, probability = default_probability_func\<rparr>"

record TransitionSet =
  allow_null_transition :: bool
  transitions :: "Transition list"

record State =
  state_id :: string
  transition_set :: TransitionSet

record Machine =
  states :: "State list"
  state_column :: string

text \<open>
  The keys of the dict that \<^verbatim>\<open>groupby_new_state\<close> returns: a State object or the
  string \<^verbatim>\<open>'null_transition'\<close>. Two State keys are the same key when they are the same
  object.
\<close>

datatype outcome = Target state_ref | Null_transition

fun same_key :: "outcome \<Rightarrow> outcome \<Rightarrow> bool" where
  "same_key (Target a) (Target b) = (obj a = obj b)"
| "same_key Null_transition Null_transition = True"
| "same_key _ _ = False"

text \<open>\<^verbatim>\<open>d[k] = v\<close> on an insertion-ordered dict: an existing key keeps its place.\<close>

fun dict_set :: "(outcome \<times> 'a) list \<Rightarrow> outcome \<Rightarrow> 'a \<Rightarrow> (outcome \<times> 'a) list" where
  "dict_set [] k v = [(k, v)]"
| "dict_set ((k', v') # d) k v =
     (if same_key k' k then (k', v) # d else (k', v') # dict_set d k v)"

text \<open>
  \<^verbatim>\<open>{outputs[i]: sub_group for i, sub_group in groups}\<close>: an index past the end of
  \<^verbatim>\<open>outputs\<close> raises IndexError.
\<close>

fun dict_of_groups ::
  "outcome list \<Rightarrow> (nat \<times> frame) list \<Rightarrow> (outcome \<times> frame) list \<Rightarrow> error + (outcome \<times> frame) list"
where
  "dict_of_groups outputs [] d = Inr d"
| "dict_of_groups outputs ((i, g) # gs) d =
     (if i < length outputs then dict_of_groups outputs gs (dict_set d (outputs ! i) g)
      else Inl IndexError)"

text \<open>
  Lines 49 to 60 of \<^verbatim>\<open>groupby_new_state\<close>: the probabilities of every transition over
  the cohort, the per-agent total, and the adjusted matrix with its list of outputs.
  Unpacking \<^verbatim>\<open>zip(*[])\<close> into two names raises ValueError when the set is empty.
\<close>

definition evaluate :: "Transition list \<Rightarrow> frame \<Rightarrow> npfloat list list" where
  "evaluate ts agents = map (\<lambda>t. map (probability t agents) [0..<len agents]) ts"

definition total_probability :: "Transition list \<Rightarrow> frame \<Rightarrow> npfloat list" where
  "total_probability ts agents = map (\<lambda>j. np_sum (column (evaluate ts agents) j)) [0..<len agents]"

definition adjust :: "TransitionSet \<Rightarrow> frame \<Rightarrow> error + (outcome list \<times> npfloat list list)" where
  "adjust ts agents =
     (if transitions ts = [] then Inl ValueError_unpack
      else
        let outputs = map (\<lambda>t. Target (output_state t)) (transitions ts);
            probabilities = evaluate (transitions ts) agents;
            tot = total_probability (transitions ts) agents
        in if \<not> allow_null_transition ts
           then Inr (outputs, map (\<lambda>r. map2 fdiv r tot) probabilities)
           else if list_ex (\<lambda>x. fgt x (Fin 1)) tot
                then Inl ValueError_total_probability
                else Inr (outputs @ [Null_transition],
                          probabilities @ [map (\<lambda>x. fsub (Fin 1) x) tot]))"

text \<open>
  Lines 62 to 64: \<^verbatim>\<open>get_draw\<close> lives in \<^verbatim>\<open>ceam.util\<close>, which is not part of the
  sources at hand; it is a parameter, giving one draw per row position of the cohort.
\<close>

type_synonym draws = "frame \<Rightarrow> nat \<Rightarrow> real"

definition output_indexes :: "draws \<Rightarrow> frame \<Rightarrow> npfloat list list \<Rightarrow> nat list" where
  "output_indexes get_draw agents probabilities =
     (let draw = map (get_draw agents) [0..<len agents]
      in map (\<lambda>j. length (filter (\<lambda>s. fge (Fin (draw ! j)) s)
                                 (np_cumsum (column probabilities j))))
             [0..<len agents])"

definition groupby_new_state ::
  "draws \<Rightarrow> TransitionSet \<Rightarrow> frame \<Rightarrow> error + (outcome \<times> frame) list"
where
  "groupby_new_state get_draw ts agents =
     (case adjust ts agents of
        Inl e \<Rightarrow> Inl e
      | Inr (outputs, probabilities) \<Rightarrow>
          dict_of_groups outputs
            (groupby agents (output_indexes get_draw agents probabilities)) [])"

text \<open>\<^verbatim>\<open>str(x)\<close> for a key of that dict: \<^verbatim>\<open>State.__str__\<close>, or the string itself.\<close>

fun str_outcome :: "outcome \<Rightarrow> string" where
  "str_outcome (Target s) = ''State(\"'' @ ref_state_id s @ ''\" ...)''"
| "str_outcome Null_transition = ''null_transition''"

text \<open>
  \<^verbatim>\<open>State.transition_effect\<close> of the target state; \<^verbatim>\<open>_transition_side_effect\<close> is the
  one of the class State, which returns the agents as they are.
\<close>

definition transition_side_effect :: "state_ref \<Rightarrow> frame \<Rightarrow> string \<Rightarrow> frame" where
  "transition_side_effect s agents state_col = agents"

definition transition_effect :: "state_ref \<Rightarrow> frame \<Rightarrow> string \<Rightarrow> frame" where
  "transition_effect s agents state_col =
     transition_side_effect s (set_column agents state_col (Str (ref_state_id s))) state_col"

definition apply_outcome :: "string \<Rightarrow> outcome \<times> frame \<Rightarrow> frame" where
  "apply_outcome state_col kv =
     (case fst kv of
        Target s \<Rightarrow> transition_effect s (snd kv) state_col
      | Null_transition \<Rightarrow> snd kv)"

definition next_state :: "draws \<Rightarrow> State \<Rightarrow> frame \<Rightarrow> string \<Rightarrow> error + frame" where
  "next_state get_draw st agents state_col =
     (if length (transitions (transition_set st)) = 0 then Inr agents
      else case groupby_new_state get_draw (transition_set st) agents of
        Inl e \<Rightarrow> Inl e
      | Inr groups \<Rightarrow>
          if groups \<noteq> []
          then pd_concat (map (apply_outcome state_col)
                              (sort_key (\<lambda>x. str_outcome (fst x)) groups))
          else Inr \<lparr>columns = columns agents, rows = []\<rparr>)"

text \<open>\<^verbatim>\<open>Machine.transition\<close>: the loop over the states, then the concatenation.\<close>

fun transition_results :: "draws \<Rightarrow> State list \<Rightarrow> frame \<Rightarrow> string \<Rightarrow> error + frame list" where
  "transition_results get_draw [] agents state_col = Inr []"
| "transition_results get_draw (st # sts) agents state_col =
     (case select_eq agents state_col (Str (state_id st)) of
        Inl e \<Rightarrow> Inl e
      | Inr affected_agents \<Rightarrow>
          (case next_state get_draw st affected_agents state_col of
             Inl e \<Rightarrow> Inl e
           | Inr r \<Rightarrow>
               (case transition_results get_draw sts agents state_col of
                  Inl e \<Rightarrow> Inl e
                | Inr rs \<Rightarrow> Inr (r # rs))))"

definition transition :: "draws \<Rightarrow> Machine \<Rightarrow> frame \<Rightarrow> error + frame" where
  "transition get_draw m agents =
     (case transition_results get_draw (states m) agents (state_column m) of
        Inl e \<Rightarrow> Inl e
      | Inr result \<Rightarrow> pd_concat result)"

section \<open>Component\<close>

text \<open>
  \<^verbatim>\<open>src/vivarium/component.py\<close>. The builder's managers (logging, lookup, data,
  population, event, configuration) are not part of the sources at hand: the builder is
  the configuration it is read from and the record of the calls made on its managers.
\<close>

text \<open>
  A method slot of a component's class: the function \<^verbatim>\<open>Component\<close> defines, or the
  one a subclass puts in its place (named by the subclass function).
\<close>

datatype slot = Component_default | Overridden string

text \<open>The bound method \<^verbatim>\<open>self.on_...\<close>: the component (by name) and the function.\<close>

datatype listener = Bound string slot

datatype population_view = View "string list" "string option"

datatype logger = Logger string

datatype lookup_table =
    Table_of_value string
  | Table_of_data string "string list" "string list"

record lookup_table_config =
  config_value :: string
  continuous_columns :: "string list"
  categorical_columns :: "string list"
  key_name :: "string option"

record Builder =
  configuration :: "string \<rightharpoonup> (string \<rightharpoonup> lookup_table_config)"
  views :: "population_view list"
  listeners :: "(string \<times> listener \<times> int) list"
  initializers :: "(listener \<times> string list \<times> (string \<times> string list) list) list"

definition DEFAULT_EVENT_PRIORITY :: int where
  "DEFAULT_EVENT_PRIORITY = 5"

text \<open>
  A component: what its class answers for the properties and method slots a subclass
  may override, and the attributes \<^verbatim>\<open>__init__\<close> creates and \<^verbatim>\<open>setup_component\<close> fills.
  The field \<open>setup_hook\<close> is the method \<^verbatim>\<open>setup\<close>, acting on the builder.
\<close>

record Component =
  name :: string
  columns_created :: "string list"
  columns_required :: "string list option"
  standard_lookup_tables :: "string list"
  initialization_requirements :: "(string \<times> string list) list"
  population_view_query :: "string option"
  post_setup_priority :: int
  time_step_prepare_priority :: int
  time_step_priority :: int
  time_step_cleanup_priority :: int
  collect_metrics_priority :: int
  simulation_end_priority :: int
  setup_hook :: "Builder \<Rightarrow> Builder"
  on_post_setup :: slot
  on_initialize_simulants :: slot
  on_time_step_prepare :: slot
  on_time_step :: slot
  on_time_step_cleanup :: slot
  on_collect_metrics :: slot
  on_simulation_end :: slot
  component_logger :: "logger option"
  population_view :: "population_view option"
  lookup_tables :: "(string \<times> lookup_table) list"

text \<open>
  \<^verbatim>\<open>build_lookup_tables\<close>: for each lookup key,
  \<^verbatim>\<open>builder.configuration[self.name][lookup_table_name]\<close> is read; a component or a
  lookup key without configuration, or a \<^verbatim>\<open>"data"\<close> configuration without
  \<^verbatim>\<open>key_name\<close>, raises KeyError.
\<close>

fun dict_put :: "(string \<times> 'a) list \<Rightarrow> string \<Rightarrow> 'a \<Rightarrow> (string \<times> 'a) list" where
  "dict_put [] k v = [(k, v)]"
| "dict_put ((k', v') # d) k v = (if k' = k then (k', v) # d else (k', v') # dict_put d k v)"

fun build_tables ::
  "Builder \<Rightarrow> string \<Rightarrow> string list \<Rightarrow> (string \<times> lookup_table) list
    \<Rightarrow> error + (string \<times> lookup_table) list"
where
  "build_tables b nm [] tabs = Inr tabs"
| "build_tables b nm (lookup_table_name # rest) tabs =
     (case configuration b nm of
        None \<Rightarrow> Inl (KeyError nm)
      | Some component_config \<Rightarrow>
     (case component_config lookup_table_name of
        None \<Rightarrow> Inl (KeyError lookup_table_name)
      | Some lookup_table_config \<Rightarrow>
          if config_value lookup_table_config = ''data''
          then (case key_name lookup_table_config of
                  None \<Rightarrow> Inl (KeyError ''key_name'')
                | Some k \<Rightarrow>
                    build_tables b nm rest
                      (dict_put tabs lookup_table_name
                         (Table_of_data k (categorical_columns lookup_table_config)
                            (continuous_columns lookup_table_config))))
          else build_tables b nm rest
                 (dict_put tabs lookup_table_name
                    (Table_of_value (config_value lookup_table_config)))))"

definition build_lookup_tables :: "Component \<Rightarrow> Builder \<Rightarrow> error + Component" where
  "build_lookup_tables c b =
     (case build_tables b (name c) (standard_lookup_tables c) (lookup_tables c) of
        Inl e \<Rightarrow> Inl e
      | Inr tabs \<Rightarrow> Inr (c\<lparr>lookup_tables := tabs\<rparr>))"

text \<open>
  \<^verbatim>\<open>_set_population_view\<close>, lines 622 to 638. \<open>None\<close> for
  \<^verbatim>\<open>population_view_columns\<close> is Python's \<^verbatim>\<open>None\<close>; a list is truthy when it is
  not empty.
\<close>

definition population_view_columns :: "Component \<Rightarrow> string list option" where
  "population_view_columns c =
     (if columns_required c \<noteq> None \<and> columns_required c \<noteq> Some []
      then Some (columns_created c @ (case columns_required c of Some r \<Rightarrow> r | None \<Rightarrow> []))
      else if columns_required c = Some []
      then Some []
      else if columns_required c = None \<and> columns_created c \<noteq> []
      then Some (columns_created c)
      else None)"

definition set_population_view :: "Component \<Rightarrow> Builder \<Rightarrow> Component \<times> Builder" where
  "set_population_view c b =
     (case population_view_columns c of
        Some cols \<Rightarrow>
          (c\<lparr>population_view := Some (View cols (population_view_query c))\<rparr>,
           b\<lparr>views := views b @ [View cols (population_view_query c)]\<rparr>)
      | None \<Rightarrow> (c, b))"

text \<open>
  Modelled from the spec: \<^verbatim>\<open>builder.population.get_view\<close> is not part of the sources
  at hand. The columns a view gives access to, among those the population table has: an
  empty column list stands for all of them.
\<close>

definition view_columns :: "string list \<Rightarrow> population_view \<Rightarrow> string list" where
  "view_columns available v = (case v of View cols q \<Rightarrow> if cols = [] then available else cols)"

text \<open>\<^verbatim>\<open>builder.event.register_listener(name, listener, priority)\<close>, recorded.\<close>

definition register_listener :: "string \<Rightarrow> listener \<Rightarrow> int \<Rightarrow> Builder \<Rightarrow> Builder" where
  "register_listener ev l p b = b\<lparr>listeners := listeners b @ [(ev, l, p)]\<rparr>"

definition register_post_setup_listener :: "Component \<Rightarrow> Builder \<Rightarrow> Builder" where
  "register_post_setup_listener c b =
     (if on_post_setup c \<noteq> Component_default
      then register_listener ''post_setup'' (Bound (name c) (on_post_setup c))
             (post_setup_priority c) b
      else b)"

definition register_simulant_initializer :: "Component \<Rightarrow> Builder \<Rightarrow> Builder" where
  "register_simulant_initializer c b =
     (if on_initialize_simulants c \<noteq> Component_default
      then b\<lparr>initializers := initializers b @
               [(Bound (name c) (on_initialize_simulants c), columns_created c,
                 initialization_requirements c)]\<rparr>
      else b)"

definition register_time_step_prepare_listener :: "Component \<Rightarrow> Builder \<Rightarrow> Builder" where
  "register_time_step_prepare_listener c b =
     (if on_time_step_prepare c \<noteq> Component_default
      then register_listener ''time_step__prepare'' (Bound (name c) (on_time_step_prepare c))
             (time_step_prepare_priority c) b
      else b)"

definition register_time_step_listener :: "Component \<Rightarrow> Builder \<Rightarrow> Builder" where
  "register_time_step_listener c b =
     (if on_time_step c \<noteq> Component_default
      then register_listener ''time_step'' (Bound (name c) (on_time_step c))
             (time_step_priority c) b
      else b)"

definition register_time_step_cleanup_listener :: "Component \<Rightarrow> Builder \<Rightarrow> Builder" where
  "register_time_step_cleanup_listener c b =
     (if on_time_step_cleanup c \<noteq> Component_default
      then register_listener ''time_step__cleanup'' (Bound (name c) (on_time_step_cleanup c))
             (time_step_cleanup_priority c) b
      else b)"

definition register_collect_metrics_listener :: "Component \<Rightarrow> Builder \<Rightarrow> Builder" where
  "register_collect_metrics_listener c b =
     (if on_collect_metrics c \<noteq> Component_default
      then register_listener ''collect_metrics'' (Bound (name c) (on_collect_metrics c))
             (collect_metrics_priority c) b
      else b)"

definition register_simulation_end_listener :: "Component \<Rightarrow> Builder \<Rightarrow> Builder" where
  "register_simulation_end_listener c b =
     (if on_simulation_end c \<noteq> Component_default
      then register_listener ''simulation_end'' (Bound (name c) (on_simulation_end c))
             (simulation_end_priority c) b
      else b)"

text \<open>\<^verbatim>\<open>setup_component\<close>, lines 388 to 398, in the order of the source.\<close>

definition setup_component :: "Component \<Rightarrow> Builder \<Rightarrow> error + Component \<times> Builder" where
  "setup_component c b =
     (let c1 = c\<lparr>component_logger := Some (Logger (name c))\<rparr>
      in case build_lookup_tables c1 b of
           Inl e \<Rightarrow> Inl e
         | Inr c2 \<Rightarrow>
             (let b1 = setup_hook c2 b;
                  (c3, b2) = set_population_view c2 b1;
                  b3 = register_post_setup_listener c3 b2;
                  b4 = register_simulant_initializer c3 b3;
                  b5 = register_time_step_prepare_listener c3 b4;
                  b6 = register_time_step_listener c3 b5;
                  b7 = register_time_step_cleanup_listener c3 b6;
                  b8 = register_collect_metrics_listener c3 b7;
                  b9 = register_simulation_end_listener c3 b8
              in Inr (c3, b9)))"

text \<open>
  The lifecycle phases in the words of the specification: for each phase, the event
  name, the component's method slot for it, and the declared priority.
\<close>

definition lifecycle_phases :: "Component \<Rightarrow> (string \<times> slot \<times> int) list" where
  "lifecycle_phases c =
     [(''post_setup'', on_post_setup c, post_setup_priority c),
      (''time_step__prepare'', on_time_step_prepare c, time_step_prepare_priority c),
      (''time_step'', on_time_step c, time_step_priority c),
      (''time_step__cleanup'', on_time_step_cleanup c, time_step_cleanup_priority c),
      (''collect_metrics'', on_collect_metrics c, collect_metrics_priority c),
      (''simulation_end'', on_simulation_end c, simulation_end_priority c)]"

text \<open>The listeners a component is to register: one for each phase whose slot is overridden.\<close>

definition registrations :: "Component \<Rightarrow> (string \<times> listener \<times> int) list" where
  "registrations c =
     map (\<lambda>(ev, m, p). (ev, Bound (name c) m, p))
       (filter (\<lambda>(ev, m, p). m \<noteq> Component_default) (lifecycle_phases c))"

section \<open>Example inputs\<close>

text \<open>
  Small concrete states, cohorts, probability functions and draws, on which the
  definitions above are evaluated.
\<close>

definition state_B :: state_ref where
  "state_B = \<lparr>obj = 1, ref_state_id = ''B''\<rparr>"

definition state_C :: state_ref where
  "state_C = \<lparr>obj = 2, ref_state_id = ''C''\<rparr>"

definition agent_in :: "nat \<Rightarrow> string \<Rightarrow> row" where
  "agent_in i s = (i, [''state'' \<mapsto> Str s])"

definition cohort_A :: frame where
  "cohort_A = \<lparr>columns = [''state''], rows = [agent_in 0 ''A'', agent_in 1 ''A'']\<rparr>"

definition empty_cohort :: frame where
  "empty_cohort = \<lparr>columns = [''state''], rows = []\<rparr>"

definition const_prob :: "real \<Rightarrow> frame \<Rightarrow> nat \<Rightarrow> npfloat" where
  "const_prob p agents j = Fin p"

definition first_only :: "real \<Rightarrow> frame \<Rightarrow> nat \<Rightarrow> npfloat" where
  "first_only p agents j = (if j = 0 then Fin p else Fin 0)"

definition draw_const :: "real \<Rightarrow> draws" where
  "draw_const d agents j = d"

definition state_A :: "bool \<Rightarrow> Transition list \<Rightarrow> State" where
  "state_A allow ts = \<lparr>state_id = ''A'', transition_set = \<lparr>allow_null_transition = allow, transitions = ts\<rparr>\<rparr>"

definition to_B :: "(frame \<Rightarrow> nat \<Rightarrow> npfloat) \<Rightarrow> Transition" where
  "to_B p = \<lparr>output_state = state_B, probability = p\<rparr>"

definition to_C :: "(frame \<Rightarrow> nat \<Rightarrow> npfloat) \<Rightarrow> Transition" where
  "to_C p = \<lparr>output_state = state_C, probability = p\<rparr>"

definition state_B_idle :: State where
  "state_B_idle = \<lparr>state_id = ''B'', transition_set = \<lparr>allow_null_transition = True, transitions = []\<rparr>\<rparr>"

definition population :: frame where
  "population = \<lparr>columns = [''state''], rows = [agent_in 0 ''A'', agent_in 1 ''B'', agent_in 2 ''A'']\<rparr>"

definition machine_AB :: "State \<Rightarrow> Machine" where
  "machine_AB a = \<lparr>states = [a, state_B_idle], state_column = ''state''\<rparr>"

definition plain_component :: Component where
  "plain_component =
     \<lparr>name = ''plain_component'',
      columns_created = [],
      columns_required = None,
      standard_lookup_tables = [],
      initialization_requirements =
        [(''requires_columns'', []), (''requires_values'', []), (''requires_streams'', [])],
      population_view_query = None,
      post_setup_priority = DEFAULT_EVENT_PRIORITY,
      time_step_prepare_priority = DEFAULT_EVENT_PRIORITY,
      time_step_priority = DEFAULT_EVENT_PRIORITY,
      time_step_cleanup_priority = DEFAULT_EVENT_PRIORITY,
      collect_metrics_priority = DEFAULT_EVENT_PRIORITY,
      simulation_end_priority = DEFAULT_EVENT_PRIORITY,
      setup_hook = (\<lambda>b. b),
      on_post_setup = Component_default,
      on_initialize_simulants = Component_default,
      on_time_step_prepare = Component_default,
      on_time_step = Component_default,
      on_time_step_cleanup = Component_default,
      on_collect_metrics = Component_default,
      on_simulation_end = Component_default,
      component_logger = None,
      population_view = None,
      lookup_tables = []\<rparr>"

definition step_component :: Component where
  "step_component =
     plain_component\<lparr>name := ''step_component'',
                     time_step_priority := 3,
                     on_time_step := Overridden ''StepComponent.on_time_step''\<rparr>"

definition new_builder :: Builder where
  "new_builder = \<lparr>configuration = Map.empty, views = [], listeners = [], initializers = []\<rparr>"

definition creating_component :: "string list option \<Rightarrow> Component" where
  "creating_component required =
     plain_component\<lparr>name := ''creating_component'',
                     columns_created := [''tracked''],
                     columns_required := required\<rparr>"

definition draw_first :: "real \<Rightarrow> real \<Rightarrow> draws" where
  "draw_first a b agents j = (if j = 0 then a else b)"

section \<open>Auxiliary facts\<close>

lemmas example_defs =
  state_B_def state_C_def agent_in_def cohort_A_def empty_cohort_def const_prob_def
  first_only_def draw_const_def state_A_def to_B_def to_C_def

lemmas engine_defs =
  adjust_def evaluate_def total_probability_def column_def np_sum_def np_cumsum_def
  output_indexes_def len_def fsub_def Let_def

lemma foldl_fadd_Fin: "foldl fadd (Fin a) (map Fin xs) = Fin (a + sum_list xs)"
  by (induction xs arbitrary: a) (simp_all add: add.assoc)

lemma np_sum_Fin: "np_sum (map Fin xs) = Fin (sum_list xs)"
  by (simp add: np_sum_def foldl_fadd_Fin)

lemma np_sum_Nil: "np_sum [] = Fin 0"
  by (simp add: np_sum_def)

lemma length_cumsum_from: "length (cumsum_from acc xs) = length xs"
  by (induction xs arbitrary: acc) simp_all

lemma length_np_cumsum: "length (np_cumsum xs) = length xs"
  by (simp add: np_cumsum_def length_cumsum_from)

lemma cumsum_from_Fin:
  "(\<forall>p\<in>set ps. 0 \<le> p) \<Longrightarrow>
   \<exists>cs. cumsum_from (Fin a) (map Fin ps) = map Fin cs \<and> sorted cs \<and> (\<forall>c\<in>set cs. a \<le> c)"
proof (induction ps arbitrary: a)
  case Nil
  then show ?case by simp
next
  case (Cons p ps)
  from Cons.prems have p: "0 \<le> p" and rest: "\<forall>q\<in>set ps. 0 \<le> q" by simp_all
  from Cons.IH [OF rest, of "a + p"] obtain cs
    where cs1: "cumsum_from (Fin (a + p)) (map Fin ps) = map Fin cs"
      and cs2: "sorted cs" and cs3: "\<forall>c\<in>set cs. a + p \<le> c"
    by blast
  have "cumsum_from (Fin a) (map Fin (p # ps)) = map Fin ((a + p) # cs)"
    using cs1 by simp
  moreover have "sorted ((a + p) # cs)"
    using cs2 cs3 by simp
  moreover have "\<forall>c\<in>set ((a + p) # cs). a \<le> c"
  proof
    fix c assume "c \<in> set ((a + p) # cs)"
    then have "a + p \<le> c" using cs3 by auto
    with p show "a \<le> c" by linarith
  qed
  ultimately show ?case by blast
qed

lemma filter_le_sorted:
  fixes d :: real
  shows "sorted cs \<Longrightarrow> filter (\<lambda>c. c \<le> d) cs = takeWhile (\<lambda>c. c \<le> d) cs"
proof (induction cs)
  case Nil
  then show ?case by simp
next
  case (Cons c cs)
  show ?case
  proof (cases "c \<le> d")
    case True
    with Cons show ?thesis by simp
  next
    case False
    with Cons.prems have "\<forall>x\<in>set cs. \<not> x \<le> d" by fastforce
    then have "filter (\<lambda>c. c \<le> d) cs = []" by (simp add: filter_empty_conv)
    with False show ?thesis by simp
  qed
qed

lemma filter_fge_Fin:
  "filter (\<lambda>s. fge (Fin d) s) (map Fin cs) = map Fin (filter (\<lambda>c. c \<le> d) cs)"
  by (induction cs) simp_all

lemma length_evaluate: "length (evaluate ts agents) = length ts"
  by (simp add: evaluate_def)

lemma length_total_probability: "length (total_probability ts agents) = len agents"
  by (simp add: total_probability_def)

lemma column_evaluate:
  "j < len agents \<Longrightarrow> column (evaluate ts agents) j = map (\<lambda>t. probability t agents j) ts"
  by (simp add: column_def evaluate_def)

lemma total_probability_nth:
  "j < len agents \<Longrightarrow>
   total_probability ts agents ! j = np_sum (map (\<lambda>t. probability t agents j) ts)"
  by (simp add: total_probability_def column_evaluate)

lemma total_probability_Nil: "j < len agents \<Longrightarrow> total_probability [] agents ! j = Fin 0"
  by (simp add: total_probability_nth np_sum_Nil)

lemma column_normalized:
  assumes "j < len agents"
  shows "column (map (\<lambda>r. map2 fdiv r (total_probability ts agents)) (evaluate ts agents)) j
         = map (\<lambda>t. fdiv (probability t agents j) (total_probability ts agents ! j)) ts"
  using assms by (simp add: column_def evaluate_def length_total_probability)

text \<open>Finite probabilities of one agent, read back as reals.\<close>

lemma finite_column:
  assumes "\<forall>t\<in>set ts. \<exists>p. f t = Fin p"
  shows "\<exists>g. map f ts = map Fin (map g ts) \<and> (\<forall>t\<in>set ts. f t = Fin (g t))"
proof -
  define g where "g = (\<lambda>t. case f t of Fin p \<Rightarrow> p | _ \<Rightarrow> 0)"
  have "\<forall>t\<in>set ts. f t = Fin (g t)"
    using assms by (auto simp: g_def)
  then have "map f ts = map Fin (map g ts)" by simp
  with \<open>\<forall>t\<in>set ts. f t = Fin (g t)\<close> show ?thesis by blast
qed

lemma sum_list_divide:
  fixes c :: real
  shows "sum_list (map (\<lambda>x. g x / c) xs) = sum_list (map g xs) / c"
  by (induction xs) (simp_all add: add_divide_distrib)

lemma count_le_sum_list:
  fixes g :: "'a \<Rightarrow> real"
  assumes "\<forall>x\<in>set xs. 0 \<le> g x" and "\<forall>x\<in>set xs. P x \<longrightarrow> g x = 1"
  shows "real (length (filter P xs)) \<le> sum_list (map g xs)"
  using assms by (induction xs) (auto simp: add.commute add_increasing2)

lemma groupby_Nil: "groupby agents [] = []"
  by (simp add: groupby_def)

lemma adjust_empty_cohort:
  "rows agents = [] \<Longrightarrow> transitions ts \<noteq> [] \<Longrightarrow> \<exists>outs probs. adjust ts agents = Inr (outs, probs)"
  by (simp add: adjust_def total_probability_def len_def Let_def)

lemma groupby_new_state_empty_cohort:
  assumes "rows agents = []" and "transitions ts \<noteq> []"
  shows "groupby_new_state get_draw ts agents = Inr []"
proof -
  from assms obtain outs probs where a: "adjust ts agents = Inr (outs, probs)"
    using adjust_empty_cohort by blast
  have "output_indexes get_draw agents probs = []"
    using assms(1) by (simp add: output_indexes_def len_def)
  with a show ?thesis
    by (simp add: groupby_new_state_def groupby_Nil)
qed

lemma adjust_total_exceeds:
  assumes "allow_null_transition ts" and "j < len agents"
    and "fgt (total_probability (transitions ts) agents ! j) (Fin 1)"
  shows "transitions ts \<noteq> [] \<and> adjust ts agents = Inl ValueError_total_probability"
proof -
  have ne: "transitions ts \<noteq> []"
  proof
    assume "transitions ts = []"
    with assms(2,3) show False by (simp add: total_probability_Nil)
  qed
  have "total_probability (transitions ts) agents ! j \<in> set (total_probability (transitions ts) agents)"
    using assms(2) by (simp add: length_total_probability)
  with assms(3) have "list_ex (\<lambda>x. fgt x (Fin 1)) (total_probability (transitions ts) agents)"
    unfolding list_ex_iff by blast
  with ne assms(1) show ?thesis
    by (simp add: adjust_def Let_def)
qed

lemma adjust_outputs:
  assumes "adjust ts agents = Inr (outs, probs)"
  shows "outs = map (\<lambda>t. Target (output_state t)) (transitions ts)
                @ (if allow_null_transition ts then [Null_transition] else [])
         \<and> length probs = length outs \<and> transitions ts \<noteq> []"
  using assms by (auto simp: adjust_def Let_def length_evaluate split: if_splits)

lemma output_indexes_nth:
  "j < len agents \<Longrightarrow>
   output_indexes get_draw agents probs ! j
   = length (filter (\<lambda>s. fge (Fin (get_draw agents j)) s) (np_cumsum (column probs j)))"
  by (simp add: output_indexes_def Let_def)

lemma nonneg_column:
  assumes "\<forall>x\<in>set xs. \<exists>p\<ge>0. x = Fin p"
  shows "\<exists>ps. xs = map Fin ps \<and> (\<forall>p\<in>set ps. 0 \<le> p)"
  using assms
proof (induction xs)
  case Nil
  then show ?case by simp
next
  case (Cons x xs)
  then obtain ps where ps: "xs = map Fin ps" "\<forall>p\<in>set ps. 0 \<le> p" by auto
  from Cons.prems obtain p where p: "0 \<le> p" "x = Fin p" by auto
  have "x # xs = map Fin (p # ps) \<and> (\<forall>q\<in>set (p # ps). 0 \<le> q)"
    using ps p by simp
  then show ?case by (rule exI)
qed

lemma first_above:
  fixes d :: real
  assumes "sorted cs"
  defines "i \<equiv> length (filter (\<lambda>c. c \<le> d) cs)"
  shows "(i < length cs \<longrightarrow> d < cs ! i) \<and> (\<forall>k<length cs. d < cs ! k \<longrightarrow> i \<le> k)"
proof -
  have i: "i = length (takeWhile (\<lambda>c. c \<le> d) cs)"
    using assms by (simp add: filter_le_sorted)
  have a: "i < length cs \<longrightarrow> d < cs ! i"
  proof
    assume "i < length cs"
    then have "\<not> cs ! i \<le> d" unfolding i by (rule nth_length_takeWhile)
    then show "d < cs ! i" by simp
  qed
  have b: "\<forall>k<length cs. d < cs ! k \<longrightarrow> i \<le> k"
  proof (intro allI impI)
    fix k assume k: "k < length cs" and above: "d < cs ! k"
    show "i \<le> k"
    proof (rule ccontr)
      assume "\<not> i \<le> k"
      then have lt: "k < length (takeWhile (\<lambda>c. c \<le> d) cs)" unfolding i by simp
      then have "takeWhile (\<lambda>c. c \<le> d) cs ! k = cs ! k" by (rule takeWhile_nth)
      moreover have "takeWhile (\<lambda>c. c \<le> d) cs ! k \<in> set (takeWhile (\<lambda>c. c \<le> d) cs)"
        using lt by simp
      ultimately have "cs ! k \<le> d" by (metis set_takeWhileD)
      with above show False by simp
    qed
  qed
  from a b show ?thesis by blast
qed

lemma output_index_first_above:
  fixes d :: real
  assumes "\<forall>x\<in>set col. \<exists>p\<ge>0. x = Fin p"
  defines "thr \<equiv> np_cumsum col"
  defines "i \<equiv> length (filter (\<lambda>s. fge (Fin d) s) thr)"
  shows "(i < length thr \<longrightarrow> fgt (thr ! i) (Fin d))
         \<and> (\<forall>k<length thr. fgt (thr ! k) (Fin d) \<longrightarrow> i \<le> k)"
proof -
  from assms(1) obtain ps where ps: "col = map Fin ps" "\<forall>p\<in>set ps. 0 \<le> p"
    using nonneg_column by blast
  from cumsum_from_Fin [OF ps(2), of 0] obtain cs
    where cs: "cumsum_from (Fin 0) (map Fin ps) = map Fin cs" "sorted cs"
    by blast
  have thr: "thr = map Fin cs"
    using ps(1) cs(1) by (simp add: thr_def np_cumsum_def)
  have i: "i = length (filter (\<lambda>c. c \<le> d) cs)"
    by (simp add: i_def thr filter_fge_Fin)
  from first_above [OF cs(2), of d]
  have "(i < length cs \<longrightarrow> d < cs ! i) \<and> (\<forall>k<length cs. d < cs ! k \<longrightarrow> i \<le> k)"
    unfolding i .
  then show ?thesis by (simp add: thr)
qed

lemma total_probability_nonneg:
  assumes "j < len agents"
    and "\<forall>t\<in>set ts. \<exists>p\<ge>0. probability t agents j = Fin p"
  shows "\<exists>g. total_probability ts agents ! j = Fin (sum_list (map g ts))
             \<and> (\<forall>t\<in>set ts. probability t agents j = Fin (g t) \<and> 0 \<le> g t)"
proof -
  from assms(2) have "\<forall>t\<in>set ts. \<exists>p. probability t agents j = Fin p" by blast
  from finite_column [of ts "\<lambda>t. probability t agents j", OF this] obtain g
    where g1: "map (\<lambda>t. probability t agents j) ts = map Fin (map g ts)"
      and g2: "\<forall>t\<in>set ts. probability t agents j = Fin (g t)"
    by blast
  have g3: "\<forall>t\<in>set ts. 0 \<le> g t"
  proof
    fix t assume t: "t \<in> set ts"
    with assms(2) obtain p where "0 \<le> p" "probability t agents j = Fin p" by blast
    with g2 t show "0 \<le> g t" by simp
  qed
  have "total_probability ts agents ! j = np_sum (map (\<lambda>t. probability t agents j) ts)"
    using assms(1) by (rule total_probability_nth)
  also have "\<dots> = np_sum (map Fin (map g ts))" by (simp only: g1)
  also have "\<dots> = Fin (sum_list (map g ts))" by (rule np_sum_Fin)
  finally have "total_probability ts agents ! j = Fin (sum_list (map g ts))" .
  with g2 g3 show ?thesis by blast
qed

lemma normalized_column_sum:
  assumes "j < len agents"
    and "\<forall>t\<in>set ts. \<exists>p. probability t agents j = Fin p"
    and "total_probability ts agents ! j \<noteq> Fin 0"
  shows "np_sum (column (map (\<lambda>r. map2 fdiv r (total_probability ts agents)) (evaluate ts agents)) j)
         = Fin 1"
proof -
  from finite_column [of ts "\<lambda>t. probability t agents j", OF assms(2)] obtain g
    where g1: "map (\<lambda>t. probability t agents j) ts = map Fin (map g ts)"
      and g2: "\<forall>t\<in>set ts. probability t agents j = Fin (g t)"
    by blast
  define S where "S = sum_list (map g ts)"
  have "total_probability ts agents ! j = np_sum (map (\<lambda>t. probability t agents j) ts)"
    using assms(1) by (rule total_probability_nth)
  also have "\<dots> = np_sum (map Fin (map g ts))" by (simp only: g1)
  also have "\<dots> = Fin S" unfolding S_def by (rule np_sum_Fin)
  finally have tot: "total_probability ts agents ! j = Fin S" .
  with assms(3) have S: "S \<noteq> 0" by simp
  have "map (\<lambda>t. fdiv (probability t agents j) (total_probability ts agents ! j)) ts
        = map Fin (map (\<lambda>t. g t / S) ts)"
    using g2 tot S by simp
  then have "np_sum (map (\<lambda>t. fdiv (probability t agents j) (total_probability ts agents ! j)) ts)
             = Fin (sum_list (map (\<lambda>t. g t / S) ts))"
    by (simp only: np_sum_Fin)
  also have "\<dots> = Fin (S / S)" by (simp only: sum_list_divide S_def)
  also have "\<dots> = Fin 1" using S by simp
  finally show ?thesis
    using assms(1) by (simp only: column_normalized)
qed

lemma const_prob_finite:
  "\<exists>p. probability (to_B (const_prob q)) a j = Fin p"
  "\<exists>p. probability (to_C (const_prob q)) a j = Fin p"
  by (simp_all add: to_B_def to_C_def const_prob_def)

lemma build_lookup_tables_fields:
  assumes "build_lookup_tables c b = Inr c2"
  shows "c2 = c\<lparr>lookup_tables := lookup_tables c2\<rparr>"
  using assms by (auto simp: build_lookup_tables_def split: sum.splits)

lemma listeners_set_population_view:
  "listeners (snd (set_population_view c b)) = listeners b"
  by (simp add: set_population_view_def split: option.splits)

lemma slots_set_population_view:
  "fst (set_population_view c b) = c\<lparr>population_view := population_view (fst (set_population_view c b))\<rparr>"
  by (simp add: set_population_view_def split: option.splits)

lemma register_all:
  "listeners
     (register_simulation_end_listener c
       (register_collect_metrics_listener c
         (register_time_step_cleanup_listener c
           (register_time_step_listener c
             (register_time_step_prepare_listener c
               (register_simulant_initializer c
                 (register_post_setup_listener c b)))))))
   = listeners b @ registrations c"
  by (simp add: register_simulation_end_listener_def register_collect_metrics_listener_def
      register_time_step_cleanup_listener_def register_time_step_listener_def
      register_time_step_prepare_listener_def register_simulant_initializer_def
      register_post_setup_listener_def register_listener_def registrations_def
      lifecycle_phases_def)

lemma registrations_cong:
  assumes "name c' = name c"
    and "lifecycle_phases c' = lifecycle_phases c"
  shows "registrations c' = registrations c"
  using assms by (simp add: registrations_def)

lemma setup_component_listeners:
  assumes "setup_component c b = Inr (c', b')"
  shows "listeners b' = listeners (setup_hook c b) @ registrations c"
proof -
  let ?c1 = "c\<lparr>component_logger := Some (Logger (name c))\<rparr>"
  from assms obtain c2 where c2: "build_lookup_tables ?c1 b = Inr c2"
    by (auto simp: setup_component_def Let_def split: sum.splits)
  from build_lookup_tables_fields [OF c2]
  have c2_eq: "c2 = ?c1\<lparr>lookup_tables := lookup_tables c2\<rparr>" .
  define b1 where "b1 = setup_hook c2 b"
  define c3 where "c3 = fst (set_population_view c2 b1)"
  define b2 where "b2 = snd (set_population_view c2 b1)"
  have hook: "setup_hook c2 = setup_hook c"
    by (subst c2_eq) simp
  have c3_eq: "c3 = c2\<lparr>population_view := population_view c3\<rparr>"
    unfolding c3_def by (rule slots_set_population_view)
  have "name c3 = name c2" by (subst c3_eq) simp
  also have "\<dots> = name c" by (subst c2_eq) simp
  finally have nm: "name c3 = name c" .
  have "lifecycle_phases c3 = lifecycle_phases c2"
    by (subst c3_eq) (simp add: lifecycle_phases_def)
  also have "\<dots> = lifecycle_phases c"
    by (subst c2_eq) (simp add: lifecycle_phases_def)
  finally have ph: "lifecycle_phases c3 = lifecycle_phases c" .
  have l2: "listeners b2 = listeners (setup_hook c b)"
    unfolding b2_def b1_def hook by (rule listeners_set_population_view)
  from assms c2 have "b' =
     register_simulation_end_listener c3
       (register_collect_metrics_listener c3
         (register_time_step_cleanup_listener c3
           (register_time_step_listener c3
             (register_time_step_prepare_listener c3
               (register_simulant_initializer c3
                 (register_post_setup_listener c3 b2))))))"
    by (simp add: setup_component_def Let_def c3_def b2_def b1_def split: prod.splits)
  then have "listeners b' = listeners b2 @ registrations c3"
    by (simp only: register_all)
  with l2 registrations_cong [OF nm ph] show ?thesis by simp
qed

lemmas machine_defs =
  transition_def select_eq_def next_state_def groupby_new_state_def groupby_def pd_concat_def
  apply_outcome_def transition_effect_def transition_side_effect_def set_column_def
  union_columns_def index_def

section \<open>The claims\<close>

text \<open>
  Claim C8. A State whose TransitionSet is empty hands the cohort back as it received it:
  \<^verbatim>\<open>next_state\<close> returns the very frame it was given, for every cohort, state column
  and source of draws.
\<close>

theorem next_state_without_transitions:
  "transitions (transition_set st) = [] \<Longrightarrow> next_state get_draw st agents state_col = Inr agents"
  by (simp add: next_state_def)

theorem next_state_without_transitions_witness:
  "transitions (transition_set (state_A True [])) = []
   \<and> next_state (draw_const (1/2)) (state_A True []) cohort_A ''state'' = Inr cohort_A"
proof -
  have h: "transitions (transition_set (state_A True [])) = []"
    by (simp add: state_A_def)
  from next_state_without_transitions [OF h] h show ?thesis by blast
qed

text \<open>
  Claim C9. On a cohort without rows, \<^verbatim>\<open>next_state\<close> of any State, whether its
  TransitionSet is empty or not, raises nothing and returns a frame without rows that has
  the column labels of the input.
\<close>

theorem next_state_empty_cohort:
  assumes "rows agents = []"
  shows "\<exists>r. next_state get_draw st agents state_col = Inr r
              \<and> rows r = [] \<and> columns r = columns agents"
proof (cases "transitions (transition_set st) = []")
  case True
  with assms show ?thesis by (simp add: next_state_def)
next
  case False
  with assms have "groupby_new_state get_draw (transition_set st) agents = Inr []"
    by (rule groupby_new_state_empty_cohort)
  with False show ?thesis by (simp add: next_state_def)
qed

theorem next_state_empty_cohort_witness:
  "rows empty_cohort = []
   \<and> transitions (transition_set (state_A True [to_B (const_prob (3/10))])) \<noteq> []
   \<and> (\<exists>r. next_state (draw_const (1/2)) (state_A True [to_B (const_prob (3/10))])
              empty_cohort ''state'' = Inr r
          \<and> rows r = [] \<and> columns r = columns empty_cohort)"
proof -
  have h: "rows empty_cohort = []" by (simp add: empty_cohort_def)
  have n: "transitions (transition_set (state_A True [to_B (const_prob (3/10))])) \<noteq> []"
    by (simp add: state_A_def)
  from next_state_empty_cohort [OF h] h n show ?thesis by blast
qed

text \<open>
  Claim C1. With null transitions allowed, as soon as one agent of the cohort has
  transition probabilities that sum to more than 1, \<^verbatim>\<open>groupby_new_state\<close> raises the
  ValueError "Total transition probability greater than 1". The test is made on each
  agent's own total. The error leaves the function while the probabilities are being
  adjusted, before a draw is taken or a group is formed, and \<^verbatim>\<open>next_state\<close> passes it
  on without having applied any transition effect: no frame is returned at all.
\<close>

theorem groupby_new_state_total_above_one:
  assumes "allow_null_transition (transition_set st)"
    and "j < len agents"
    and "fgt (total_probability (transitions (transition_set st)) agents ! j) (Fin 1)"
  shows "adjust (transition_set st) agents = Inl ValueError_total_probability
         \<and> groupby_new_state get_draw (transition_set st) agents = Inl ValueError_total_probability
         \<and> next_state get_draw st agents state_col = Inl ValueError_total_probability"
proof -
  from adjust_total_exceeds [OF assms]
  have ne: "transitions (transition_set st) \<noteq> []"
    and a: "adjust (transition_set st) agents = Inl ValueError_total_probability"
    by simp_all
  from a have g: "groupby_new_state get_draw (transition_set st) agents
                  = Inl ValueError_total_probability"
    by (simp add: groupby_new_state_def)
  from ne g have "next_state get_draw st agents state_col = Inl ValueError_total_probability"
    by (simp add: next_state_def)
  with a g show ?thesis by blast
qed

text \<open>
  The witness is a cohort of two agents: the first has total 1.2, the second has total 0,
  so the cohort's mean total is 0.6 and only the per-agent test can fail.
\<close>

theorem groupby_new_state_total_above_one_witness:
  "allow_null_transition (transition_set (state_A True [to_B (first_only (6/5))]))
   \<and> 0 < len cohort_A
   \<and> fgt (total_probability (transitions (transition_set (state_A True [to_B (first_only (6/5))])))
            cohort_A ! 0) (Fin 1)
   \<and> total_probability (transitions (transition_set (state_A True [to_B (first_only (6/5))])))
        cohort_A ! 1 = Fin 0
   \<and> next_state (draw_const (1/2)) (state_A True [to_B (first_only (6/5))]) cohort_A ''state''
       = Inl ValueError_total_probability"
proof -
  let ?st = "state_A True [to_B (first_only (6/5))]"
  have h1: "allow_null_transition (transition_set ?st)" by (simp add: state_A_def)
  have h2: "0 < len cohort_A" by (simp add: len_def cohort_A_def)
  have h3: "fgt (total_probability (transitions (transition_set ?st)) cohort_A ! 0) (Fin 1)"
    by (simp add: example_defs engine_defs)
  have h4: "total_probability (transitions (transition_set ?st)) cohort_A ! 1 = Fin 0"
    by (simp add: example_defs engine_defs)
  from groupby_new_state_total_above_one [OF h1 h2 h3] h1 h2 h3 h4 show ?thesis by blast
qed

text \<open>
  Claim C10. A Transition built without a probability function gives every agent of every
  cohort the probability 1.0. So in a TransitionSet that allows null transitions and holds
  two or more such transitions (its other transitions giving finite probabilities that
  are not negative), the total of every agent of a cohort that is not empty exceeds 1, and
  \<^verbatim>\<open>groupby_new_state\<close> raises the ValueError of the conservation test.
\<close>

theorem default_transitions_exceed_one:
  assumes "allow_null_transition ts"
    and "rows agents \<noteq> []"
    and "2 \<le> length (filter (\<lambda>t. probability t = default_probability_func) (transitions ts))"
    and "\<forall>t\<in>set (transitions ts). \<forall>j<len agents. \<exists>p\<ge>0. probability t agents j = Fin p"
  shows "(\<forall>a j. probability (Transition_init out) a j = Fin 1)
         \<and> (\<forall>j<len agents. fgt (total_probability (transitions ts) agents ! j) (Fin 1))
         \<and> groupby_new_state get_draw ts agents = Inl ValueError_total_probability"
proof -
  have d: "\<forall>a j. probability (Transition_init out) a j = Fin 1"
    by (simp add: Transition_init_def default_probability_func_def)
  have above: "\<forall>j<len agents. fgt (total_probability (transitions ts) agents ! j) (Fin 1)"
  proof (intro allI impI)
    fix j assume j: "j < len agents"
    with assms(4) have "\<forall>t\<in>set (transitions ts). \<exists>p\<ge>0. probability t agents j = Fin p"
      by blast
    from total_probability_nonneg [OF j this] obtain g
      where tot: "total_probability (transitions ts) agents ! j = Fin (sum_list (map g (transitions ts)))"
        and g: "\<forall>t\<in>set (transitions ts). probability t agents j = Fin (g t) \<and> 0 \<le> g t"
      by blast
    have one: "\<forall>t\<in>set (transitions ts). probability t = default_probability_func \<longrightarrow> g t = 1"
    proof (intro ballI impI)
      fix t assume t: "t \<in> set (transitions ts)" and "probability t = default_probability_func"
      then have "probability t agents j = Fin 1" by (simp add: default_probability_func_def)
      with g t show "g t = 1" by simp
    qed
    from g have nonneg: "\<forall>t\<in>set (transitions ts). 0 \<le> g t" by blast
    from count_le_sum_list [OF nonneg one]
    have "real (length (filter (\<lambda>t. probability t = default_probability_func) (transitions ts)))
          \<le> sum_list (map g (transitions ts))" .
    moreover from assms(3)
    have "2 \<le> real (length (filter (\<lambda>t. probability t = default_probability_func) (transitions ts)))"
      by simp
    ultimately have "1 < sum_list (map g (transitions ts))" by linarith
    with tot show "fgt (total_probability (transitions ts) agents ! j) (Fin 1)" by simp
  qed
  from assms(2) have pos: "0 < len agents" by (simp add: len_def)
  with above have "fgt (total_probability (transitions ts) agents ! 0) (Fin 1)" by blast
  from adjust_total_exceeds [OF assms(1) pos this]
  have "adjust ts agents = Inl ValueError_total_probability" by simp
  then have "groupby_new_state get_draw ts agents = Inl ValueError_total_probability"
    by (simp add: groupby_new_state_def)
  with d above show ?thesis by blast
qed

theorem default_transitions_exceed_one_witness:
  "allow_null_transition \<lparr>allow_null_transition = True,
       transitions = [Transition_init state_B, to_C (const_prob 0), Transition_init state_C]\<rparr>
   \<and> rows cohort_A \<noteq> []
   \<and> groupby_new_state (draw_const (1/2))
        \<lparr>allow_null_transition = True,
         transitions = [Transition_init state_B, to_C (const_prob 0), Transition_init state_C]\<rparr>
        cohort_A = Inl ValueError_total_probability"
proof -
  let ?ts = "\<lparr>allow_null_transition = True,
       transitions = [Transition_init state_B, to_C (const_prob 0), Transition_init state_C]\<rparr>"
  have h1: "allow_null_transition ?ts" by simp
  have h2: "rows cohort_A \<noteq> []" by (simp add: cohort_A_def)
  have ne: "probability (to_C (const_prob 0)) \<noteq> default_probability_func"
  proof
    assume "probability (to_C (const_prob 0)) = default_probability_func"
    then have "probability (to_C (const_prob 0)) cohort_A 0 = default_probability_func cohort_A 0"
      by simp
    then show False by (simp add: to_C_def const_prob_def default_probability_func_def)
  qed
  have h3: "2 \<le> length (filter (\<lambda>t. probability t = default_probability_func) (transitions ?ts))"
    using ne by (simp add: Transition_init_def)
  have h4: "\<forall>t\<in>set (transitions ?ts). \<forall>j<len cohort_A. \<exists>p\<ge>0. probability t cohort_A j = Fin p"
    by (simp add: Transition_init_def default_probability_func_def to_C_def const_prob_def)
  from default_transitions_exceed_one [OF h1 h2 h3 h4, of state_B "draw_const (1/2)"] h1 h2 show ?thesis by blast
qed

text \<open>
  Claim C4, amended. With null transitions disallowed, \<^verbatim>\<open>groupby_new_state\<close> divides
  each transition's probability by the agent's total. For an agent whose probabilities
  are finite and whose total is not zero, the quotients sum to 1. (Finite values are real
  numbers here, so the sum is 1 exactly; rounding is not modelled.)
\<close>

theorem normalization_sums_to_one:
  assumes "\<not> allow_null_transition ts"
    and "transitions ts \<noteq> []"
    and "j < len agents"
    and "\<forall>t\<in>set (transitions ts). \<exists>p. probability t agents j = Fin p"
    and "total_probability (transitions ts) agents ! j \<noteq> Fin 0"
  shows "\<exists>outs probs. adjust ts agents = Inr (outs, probs) \<and> np_sum (column probs j) = Fin 1"
proof -
  have "adjust ts agents
        = Inr (map (\<lambda>t. Target (output_state t)) (transitions ts),
               map (\<lambda>r. map2 fdiv r (total_probability (transitions ts) agents))
                   (evaluate (transitions ts) agents))"
    using assms(1,2) by (simp add: adjust_def Let_def)
  moreover note normalized_column_sum [OF assms(3,4,5)]
  ultimately show ?thesis by blast
qed

theorem normalization_sums_to_one_witness:
  "\<not> allow_null_transition \<lparr>allow_null_transition = False,
        transitions = [to_B (const_prob (3/10)), to_C (const_prob (1/10))]\<rparr>
   \<and> 0 < len cohort_A
   \<and> total_probability [to_B (const_prob (3/10)), to_C (const_prob (1/10))] cohort_A ! 0 = Fin (2/5)
   \<and> (\<exists>outs probs. adjust \<lparr>allow_null_transition = False,
          transitions = [to_B (const_prob (3/10)), to_C (const_prob (1/10))]\<rparr> cohort_A = Inr (outs, probs)
         \<and> np_sum (column probs 0) = Fin 1)"
proof -
  let ?ts = "\<lparr>allow_null_transition = False,
        transitions = [to_B (const_prob (3/10)), to_C (const_prob (1/10))]\<rparr>"
  have h1: "\<not> allow_null_transition ?ts" by simp
  have h2: "transitions ?ts \<noteq> []" by simp
  have h3: "0 < len cohort_A" by (simp add: len_def cohort_A_def)
  have h4: "\<forall>t\<in>set (transitions ?ts). \<exists>p. probability t cohort_A 0 = Fin p"
    by (simp add: const_prob_finite)
  have t: "total_probability (transitions ?ts) cohort_A ! 0 = Fin (2/5)"
    by (simp add: example_defs engine_defs)
  then have h5: "total_probability (transitions ?ts) cohort_A ! 0 \<noteq> Fin 0" by simp
  from normalization_sums_to_one [OF h1 h2 h3 h4 h5] h1 h3 t show ?thesis by simp
qed

text \<open>
  Claim C4 as stated, for every cohort, fails where an agent's total is zero: numpy
  divides 0 by 0 without raising, each quotient is NaN and so is their sum.
\<close>

theorem normalization_zero_total_counterexample:
  "\<not> allow_null_transition \<lparr>allow_null_transition = False, transitions = [to_B (const_prob 0)]\<rparr>
   \<and> adjust \<lparr>allow_null_transition = False, transitions = [to_B (const_prob 0)]\<rparr> cohort_A
       = Inr ([Target state_B], [[NaN, NaN]])
   \<and> np_sum (column [[NaN, NaN]] 0) = NaN
   \<and> np_sum (column [[NaN, NaN]] 0) \<noteq> Fin 1"
  by (simp add: example_defs engine_defs)

text \<open>
  Claim C3, amended. The thresholds of an agent are the cumulative sums over the ordered
  outcome list: the declared transitions in declaration order, then the null transition
  when it is allowed. The index \<^verbatim>\<open>groupby_new_state\<close> assigns to the agent is the
  number of thresholds that are less than or equal to the agent's draw
  (\<^verbatim>\<open>draw >= sums\<close>). When the agent's probabilities are finite and not negative, that is
  the first outcome whose cumulative probability is strictly greater than the draw.
\<close>

theorem output_index_counts_thresholds:
  fixes get_draw :: draws
  assumes "adjust ts agents = Inr (outs, probs)" and "j < len agents"
  defines "thr \<equiv> np_cumsum (column probs j)"
  defines "i \<equiv> output_indexes get_draw agents probs ! j"
  shows "outs = map (\<lambda>t. Target (output_state t)) (transitions ts)
                @ (if allow_null_transition ts then [Null_transition] else [])
         \<and> length thr = length outs
         \<and> i = card {k. k < length thr \<and> fge (Fin (get_draw agents j)) (thr ! k)}
         \<and> ((\<forall>x\<in>set (column probs j). \<exists>p\<ge>0. x = Fin p) \<longrightarrow>
              (i < length thr \<longrightarrow> fgt (thr ! i) (Fin (get_draw agents j)))
              \<and> (\<forall>k<length thr. fgt (thr ! k) (Fin (get_draw agents j)) \<longrightarrow> i \<le> k))"
proof -
  from adjust_outputs [OF assms(1)]
  have o: "outs = map (\<lambda>t. Target (output_state t)) (transitions ts)
                  @ (if allow_null_transition ts then [Null_transition] else [])"
    and l: "length probs = length outs"
    by simp_all
  have len: "length thr = length outs"
    using l by (simp add: thr_def length_np_cumsum column_def)
  have i: "i = length (filter (\<lambda>s. fge (Fin (get_draw agents j)) s) thr)"
    unfolding i_def thr_def using assms(2) by (rule output_indexes_nth)
  then have c: "i = card {k. k < length thr \<and> fge (Fin (get_draw agents j)) (thr ! k)}"
    by (simp only: length_filter_conv_card)
  have f: "(\<forall>x\<in>set (column probs j). \<exists>p\<ge>0. x = Fin p) \<longrightarrow>
              (i < length thr \<longrightarrow> fgt (thr ! i) (Fin (get_draw agents j)))
              \<and> (\<forall>k<length thr. fgt (thr ! k) (Fin (get_draw agents j)) \<longrightarrow> i \<le> k)"
  proof
    assume "\<forall>x\<in>set (column probs j). \<exists>p\<ge>0. x = Fin p"
    from output_index_first_above [OF this, of "get_draw agents j"]
    show "(i < length thr \<longrightarrow> fgt (thr ! i) (Fin (get_draw agents j)))
              \<and> (\<forall>k<length thr. fgt (thr ! k) (Fin (get_draw agents j)) \<longrightarrow> i \<le> k)"
      unfolding i thr_def .
  qed
  from o len c f show ?thesis by blast
qed

theorem output_index_counts_thresholds_witness:
  "adjust (transition_set (state_A True [to_B (const_prob (3/10)), to_C (const_prob (1/5))])) cohort_A
     = Inr ([Target state_B, Target state_C, Null_transition],
            [[Fin (3/10), Fin (3/10)], [Fin (1/5), Fin (1/5)], [Fin (1/2), Fin (1/2)]])
   \<and> 0 < len cohort_A
   \<and> np_cumsum (column [[Fin (3/10), Fin (3/10)], [Fin (1/5), Fin (1/5)], [Fin (1/2), Fin (1/2)]] 0)
       = [Fin (3/10), Fin (1/2), Fin 1]
   \<and> output_indexes (draw_const (2/5)) cohort_A
        [[Fin (3/10), Fin (3/10)], [Fin (1/5), Fin (1/5)], [Fin (1/2), Fin (1/2)]] ! 0
       = card {k. k < length [Fin (3/10), Fin (1/2), Fin 1]
                  \<and> fge (Fin (draw_const (2/5) cohort_A 0)) ([Fin (3/10), Fin (1/2), Fin 1] ! k)}
   \<and> output_indexes (draw_const (2/5)) cohort_A
        [[Fin (3/10), Fin (3/10)], [Fin (1/5), Fin (1/5)], [Fin (1/2), Fin (1/2)]] ! 0 = 1
   \<and> fgt ([Fin (3/10), Fin (1/2), Fin 1] ! 1) (Fin (draw_const (2/5) cohort_A 0))"
proof -
  let ?ts = "transition_set (state_A True [to_B (const_prob (3/10)), to_C (const_prob (1/5))])"
  let ?P = "[[Fin (3/10), Fin (3/10)], [Fin (1/5), Fin (1/5)], [Fin (1/2), Fin (1/2)]]"
  let ?d = "draw_const (2/5)"
  have h1: "adjust ?ts cohort_A = Inr ([Target state_B, Target state_C, Null_transition], ?P)"
    by (simp add: example_defs engine_defs)
  have h2: "0 < len cohort_A" by (simp add: len_def cohort_A_def)
  have thr: "np_cumsum (column ?P 0) = [Fin (3/10), Fin (1/2), Fin 1]"
    by (simp add: engine_defs)
  have col: "column ?P 0 = [Fin (3/10), Fin (1/5), Fin (1/2)]"
    by (simp add: column_def)
  have h3: "\<forall>x\<in>set (column ?P 0). \<exists>p\<ge>0. x = Fin p"
    unfolding col by (intro ballI) (auto intro: exI [of _ "3/10"] exI [of _ "1/5"] exI [of _ "1/2"])
  have i: "output_indexes ?d cohort_A ?P ! 0 = 1"
    by (simp add: example_defs engine_defs)
  note t = output_index_counts_thresholds [OF h1 h2, of ?d]
  from t have c: "output_indexes ?d cohort_A ?P ! 0
       = card {k. k < length (np_cumsum (column ?P 0))
                  \<and> fge (Fin (?d cohort_A 0)) (np_cumsum (column ?P 0) ! k)}"
    by blast
  from t h3 have "output_indexes ?d cohort_A ?P ! 0 < length (np_cumsum (column ?P 0)) \<longrightarrow>
      fgt (np_cumsum (column ?P 0) ! (output_indexes ?d cohort_A ?P ! 0)) (Fin (?d cohort_A 0))"
    by blast
  then have f: "fgt ([Fin (3/10), Fin (1/2), Fin 1] ! 1) (Fin (?d cohort_A 0))"
    unfolding i thr by simp
  from h1 h2 thr c [unfolded thr] i f show ?thesis by blast
qed

text \<open>
  Claim C3 as stated counts the thresholds strictly less than the draw, that is the first
  outcome whose cumulative probability is greater than or equal to the draw. The two
  differ when a draw falls on a threshold: with thresholds 0.5 and 1 and a draw of 0.5 the
  code assigns index 1, the null transition, while no threshold is strictly less than the
  draw and the first threshold is already greater than or equal to it.
\<close>

theorem output_index_on_threshold_counterexample:
  "adjust (transition_set (state_A True [to_B (const_prob (1/2))])) cohort_A
     = Inr ([Target state_B, Null_transition], [[Fin (1/2), Fin (1/2)], [Fin (1/2), Fin (1/2)]])
   \<and> np_cumsum (column [[Fin (1/2), Fin (1/2)], [Fin (1/2), Fin (1/2)]] 0) = [Fin (1/2), Fin 1]
   \<and> output_indexes (draw_const (1/2)) cohort_A [[Fin (1/2), Fin (1/2)], [Fin (1/2), Fin (1/2)]] ! 0 = 1
   \<and> length (filter (\<lambda>s. fgt (Fin (draw_const (1/2) cohort_A 0)) s)
        (np_cumsum (column [[Fin (1/2), Fin (1/2)], [Fin (1/2), Fin (1/2)]] 0))) = 0
   \<and> fge ([Fin (1/2), Fin 1] ! 0) (Fin (draw_const (1/2) cohort_A 0))"
  by (simp add: example_defs engine_defs)

text \<open>
  Claim C6. When \<^verbatim>\<open>setup_component\<close> returns, the listeners it has registered, after
  whatever the component's own \<^verbatim>\<open>setup\<close> registered, are exactly one per lifecycle phase
  whose method the component's class overrides, in the order of the phases, each under
  the phase's event name, with the bound method and at the declared priority of that
  phase. In particular a component that overrides \<^verbatim>\<open>on_time_step\<close> and no other phase
  method registers the single listener of the event \<^verbatim>\<open>time_step\<close>, at its
  \<^verbatim>\<open>time_step_priority\<close>.
\<close>

theorem setup_component_registers_overridden:
  assumes "setup_component c b = Inr (c', b')"
  shows "listeners b' = listeners (setup_hook c b)
           @ map (\<lambda>(ev, m, p). (ev, Bound (name c) m, p))
               (filter (\<lambda>(ev, m, p). m \<noteq> Component_default) (lifecycle_phases c))
         \<and> (on_time_step c \<noteq> Component_default
              \<and> on_post_setup c = Component_default
              \<and> on_time_step_prepare c = Component_default
              \<and> on_time_step_cleanup c = Component_default
              \<and> on_collect_metrics c = Component_default
              \<and> on_simulation_end c = Component_default
            \<longrightarrow> listeners b' = listeners (setup_hook c b)
                  @ [(''time_step'', Bound (name c) (on_time_step c), time_step_priority c)])"
proof -
  from setup_component_listeners [OF assms]
  have e: "listeners b' = listeners (setup_hook c b) @ registrations c" .
  then have "listeners b' = listeners (setup_hook c b)
           @ map (\<lambda>(ev, m, p). (ev, Bound (name c) m, p))
               (filter (\<lambda>(ev, m, p). m \<noteq> Component_default) (lifecycle_phases c))"
    by (simp only: registrations_def)
  moreover have "on_time_step c \<noteq> Component_default
              \<and> on_post_setup c = Component_default
              \<and> on_time_step_prepare c = Component_default
              \<and> on_time_step_cleanup c = Component_default
              \<and> on_collect_metrics c = Component_default
              \<and> on_simulation_end c = Component_default
            \<longrightarrow> registrations c = [(''time_step'', Bound (name c) (on_time_step c), time_step_priority c)]"
    by (simp add: registrations_def lifecycle_phases_def)
  ultimately show ?thesis using e by simp
qed

theorem setup_component_registers_overridden_witness:
  "setup_component step_component new_builder
     = Inr (step_component\<lparr>component_logger := Some (Logger ''step_component'')\<rparr>,
            new_builder\<lparr>listeners := [(''time_step'',
               Bound ''step_component'' (Overridden ''StepComponent.on_time_step''), 3)]\<rparr>)
   \<and> listeners (new_builder\<lparr>listeners := [(''time_step'',
               Bound ''step_component'' (Overridden ''StepComponent.on_time_step''), 3)]\<rparr>)
      = listeners (setup_hook step_component new_builder)
        @ [(''time_step'', Bound (name step_component) (on_time_step step_component),
            time_step_priority step_component)]"
proof -
  have h: "setup_component step_component new_builder
     = Inr (step_component\<lparr>component_logger := Some (Logger ''step_component'')\<rparr>,
            new_builder\<lparr>listeners := [(''time_step'',
               Bound ''step_component'' (Overridden ''StepComponent.on_time_step''), 3)]\<rparr>)"
    by (simp add: setup_component_def build_lookup_tables_def set_population_view_def
        population_view_columns_def step_component_def plain_component_def new_builder_def
        register_simulation_end_listener_def register_collect_metrics_listener_def
        register_time_step_cleanup_listener_def register_time_step_listener_def
        register_time_step_prepare_listener_def register_simulant_initializer_def
        register_post_setup_listener_def register_listener_def)
  have s: "on_time_step step_component \<noteq> Component_default
              \<and> on_post_setup step_component = Component_default
              \<and> on_time_step_prepare step_component = Component_default
              \<and> on_time_step_cleanup step_component = Component_default
              \<and> on_collect_metrics step_component = Component_default
              \<and> on_simulation_end step_component = Component_default"
    by (simp add: step_component_def plain_component_def)
  from setup_component_registers_overridden [OF h] s h show ?thesis by blast
qed

text \<open>
  Claim C7. \<^verbatim>\<open>_set_population_view\<close> asks for a view on: the created columns followed
  by the required ones when \<^verbatim>\<open>columns_required\<close> is a list that is not empty; the
  empty list, which stands for all columns, when it is the empty list; the created columns
  when it is \<^verbatim>\<open>None\<close> and columns are created; and it asks for no view, leaving the
  component and the builder as they are, when it is \<^verbatim>\<open>None\<close> and nothing is created.
\<close>

theorem set_population_view_precedence:
  "(\<forall>r rs. columns_required c = Some (r # rs) \<longrightarrow>
      set_population_view c b
      = (c\<lparr>population_view :=
             Some (View (columns_created c @ r # rs) (population_view_query c))\<rparr>,
         b\<lparr>views := views b @ [View (columns_created c @ r # rs) (population_view_query c)]\<rparr>))
   \<and> (columns_required c = Some [] \<longrightarrow>
      set_population_view c b
      = (c\<lparr>population_view := Some (View [] (population_view_query c))\<rparr>,
         b\<lparr>views := views b @ [View [] (population_view_query c)]\<rparr>)
      \<and> view_columns available (View [] (population_view_query c)) = available)
   \<and> (columns_required c = None \<and> columns_created c \<noteq> [] \<longrightarrow>
      set_population_view c b
      = (c\<lparr>population_view := Some (View (columns_created c) (population_view_query c))\<rparr>,
         b\<lparr>views := views b @ [View (columns_created c) (population_view_query c)]\<rparr>))
   \<and> (columns_required c = None \<and> columns_created c = [] \<longrightarrow>
      set_population_view c b = (c, b))"
  by (simp add: set_population_view_def population_view_columns_def view_columns_def)

theorem set_population_view_precedence_witness:
  "set_population_view (creating_component (Some [''age''])) new_builder
     = (creating_component (Some [''age''])\<lparr>population_view := Some (View [''tracked'', ''age''] None)\<rparr>,
        new_builder\<lparr>views := [View [''tracked'', ''age''] None]\<rparr>)
   \<and> set_population_view (creating_component (Some [])) new_builder
     = (creating_component (Some [])\<lparr>population_view := Some (View [] None)\<rparr>,
        new_builder\<lparr>views := [View [] None]\<rparr>)
   \<and> view_columns [''tracked'', ''age'', ''sex''] (View [] None) = [''tracked'', ''age'', ''sex'']
   \<and> set_population_view (creating_component None) new_builder
     = (creating_component None\<lparr>population_view := Some (View [''tracked''] None)\<rparr>,
        new_builder\<lparr>views := [View [''tracked''] None]\<rparr>)
   \<and> set_population_view plain_component new_builder = (plain_component, new_builder)"
proof -
  have q: "population_view_query (creating_component r) = None"
    "columns_created (creating_component r) = [''tracked'']"
    "columns_required (creating_component r) = r"
    "views new_builder = []" for r
    by (simp_all add: creating_component_def plain_component_def new_builder_def)
  have p: "columns_required plain_component = None \<and> columns_created plain_component = []"
    by (simp add: plain_component_def)
  note a = set_population_view_precedence [of "creating_component (Some [''age''])" new_builder "[''tracked'', ''age'', ''sex'']"]
  note b = set_population_view_precedence [of "creating_component (Some [])" new_builder "[''tracked'', ''age'', ''sex'']"]
  note c = set_population_view_precedence [of "creating_component None" new_builder "[''tracked'', ''age'', ''sex'']"]
  note d = set_population_view_precedence [of plain_component new_builder "[''tracked'', ''age'', ''sex'']"]
  from a have 1: "set_population_view (creating_component (Some [''age''])) new_builder
     = (creating_component (Some [''age''])\<lparr>population_view := Some (View [''tracked'', ''age''] None)\<rparr>,
        new_builder\<lparr>views := [View [''tracked'', ''age''] None]\<rparr>)"
    by (simp add: q)
  from b have 2: "set_population_view (creating_component (Some [])) new_builder
     = (creating_component (Some [])\<lparr>population_view := Some (View [] None)\<rparr>,
        new_builder\<lparr>views := [View [] None]\<rparr>)
     \<and> view_columns [''tracked'', ''age'', ''sex''] (View [] None) = [''tracked'', ''age'', ''sex'']"
    by (simp add: q)
  from c have 3: "set_population_view (creating_component None) new_builder
     = (creating_component None\<lparr>population_view := Some (View [''tracked''] None)\<rparr>,
        new_builder\<lparr>views := [View [''tracked''] None]\<rparr>)"
    by (simp add: q)
  from d p have 4: "set_population_view plain_component new_builder = (plain_component, new_builder)"
    by blast
  from 1 2 3 4 show ?thesis by blast
qed

text \<open>
  Claim C2. \<^verbatim>\<open>Machine.transition\<close> is to return every agent of the population exactly
  once when the declared States cover the state column. The code does not, on this input:
  State A has two transitions to the same State object B, with probabilities 0.3 and 0.2,
  null transitions allowed; State B has no transitions; agents 0 and 2 are in A, agent 1
  is in B, so every agent's state is the identifier of exactly one declared State. Agent 0
  draws 0.1 and is assigned outcome 0, agent 2 draws 0.4 and is assigned outcome 1.
  \<^verbatim>\<open>groupby_new_state\<close> builds its result with
  \<^verbatim>\<open>{outputs[i]:sub_group for i, sub_group in groups}\<close>; both outcomes have the key B,
  the second group replaces the first, and the frame returned holds agents 2 and 1 only:
  agent 0 is dropped without an error.
\<close>

theorem transition_shared_target_drops_agent:
  "states (machine_AB (state_A True [to_B (const_prob (3/10)), to_B (const_prob (1/5))])) \<noteq> []
   \<and> state_column (machine_AB (state_A True [to_B (const_prob (3/10)), to_B (const_prob (1/5))]))
       \<in> set (columns population)
   \<and> map (\<lambda>r. length (filter (\<lambda>st. snd r ''state'' = Some (Str (state_id st)))
                 (states (machine_AB (state_A True [to_B (const_prob (3/10)), to_B (const_prob (1/5))])))))
        (rows population) = [1, 1, 1]
   \<and> index population = [0, 1, 2]
   \<and> transition (draw_first (1/10) (2/5))
        (machine_AB (state_A True [to_B (const_prob (3/10)), to_B (const_prob (1/5))])) population
      = Inr \<lparr>columns = [''state''], rows = [agent_in 2 ''B'', agent_in 1 ''B'']\<rparr>
   \<and> index \<lparr>columns = [''state''], rows = [agent_in 2 ''B'', agent_in 1 ''B'']\<rparr> = [2, 1]"
  by (simp add: machine_AB_def state_A_def state_B_idle_def population_def agent_in_def
      to_B_def state_B_def const_prob_def draw_first_def machine_defs engine_defs)

end
